theory Spec2Isabelle
  imports Complex_Main
begin

section \<open>JavaScript values used by the cart and the data loader\<close>

text \<open>
  A JavaScript number is modelled as \<open>NaN\<close>, one of the two infinities, or a finite
  value. Finite values are exact rationals: the rounding of IEEE-754 arithmetic and
  the sign of zero are not modelled.
\<close>

datatype jsnum = NaN | PosInf | NegInf | Fin rat

datatype jsval =
    Undefined
  | Null
  | Bool bool
  | Num jsnum
  | Str string
  | Arr "jsval list"
  | Obj "(string \<times> jsval) list"

text \<open>Truthiness, as used by \<open>||\<close>, \<open>!\<close> and the conditional operator.\<close>

fun truthy :: "jsval \<Rightarrow> bool" where
  "truthy Undefined = False"
| "truthy Null = False"
| "truthy (Bool b) = b"
| "truthy (Num NaN) = False"
| "truthy (Num (Fin q)) = (q \<noteq> 0)"
| "truthy (Num PosInf) = True"
| "truthy (Num NegInf) = True"
| "truthy (Str s) = (s \<noteq> [])"
| "truthy (Arr xs) = True"
| "truthy (Obj ps) = True"

text \<open>The operator \<open>a || b\<close>.\<close>

definition js_or :: "jsval \<Rightarrow> jsval \<Rightarrow> jsval" where
  "js_or a b = (if truthy a then a else b)"

text \<open>Property read \<open>item.k\<close> on a plain object: an absent property reads as \<open>undefined\<close>.\<close>

type_synonym jsobj = "(string \<times> jsval) list"

definition getProp :: "jsobj \<Rightarrow> string \<Rightarrow> jsval" where
  "getProp item k = (case map_of item k of None \<Rightarrow> Undefined | Some v \<Rightarrow> v)"


text \<open>
  \<open>parseFloat(v)\<close>. A number argument is converted to its string and read back, which
  gives the number again (the model has one zero, so \<open>-0\<close> is not told apart). The reading of a numeric prefix from a string, and the
  string of an array, belong to the runtime and are parameters \<open>strToNum\<close> and
  \<open>toStr\<close>. The strings of \<open>undefined\<close>, \<open>null\<close>, booleans and plain objects have no
  numeric prefix.
\<close>

fun parseFloat :: "(string \<Rightarrow> jsnum) \<Rightarrow> (jsval \<Rightarrow> string) \<Rightarrow> jsval \<Rightarrow> jsnum" where
  "parseFloat strToNum toStr (Num n) = n"
| "parseFloat strToNum toStr (Str s) = strToNum s"
| "parseFloat strToNum toStr (Arr xs) = strToNum (toStr (Arr xs))"
| "parseFloat strToNum toStr Undefined = NaN"
| "parseFloat strToNum toStr Null = NaN"
| "parseFloat strToNum toStr (Bool b) = NaN"
| "parseFloat strToNum toStr (Obj ps) = NaN"

text \<open>Decimal digits of a natural number, for the template literal \<open>item-${Date.now()}\<close>.\<close>

fun digits10 :: "nat \<Rightarrow> string" where
  "digits10 n =
     (if n < 10 then [char_of (48 + n)]
      else digits10 (n div 10) @ [char_of (48 + n mod 10)])"

declare digits10.simps [simp del]

section \<open>The shopping cart\<close>

text \<open>
  An entry of \<open>this.cart\<close> as \<open>addItem\<close> builds it: the object literal with the five
  properties \<open>id\<close>, \<open>name\<close>, \<open>price\<close>, \<open>description\<close> and \<open>type\<close>.
\<close>

record CartItem =
  item_id :: jsval
  item_name :: jsval
  item_price :: jsnum
  item_description :: jsval
  item_type :: jsval

text \<open>The runtime functions the cart calls and the model does not fix.\<close>

record runtime =
  strToNum :: "string \<Rightarrow> jsnum"
  toStr :: "jsval \<Rightarrow> string"
  toFixed2 :: "jsnum \<Rightarrow> string"
  json_text :: "jsval \<Rightarrow> string"
  JSON_parse :: "string \<Rightarrow> jsval option"

text \<open>
  \<open>JSON.stringify\<close> first turns the value into what JSON can express and then writes
  its text. The first step is fixed by the language: a number that is not finite
  becomes \<open>null\<close>, an \<open>undefined\<close> array element becomes \<open>null\<close>, and a property whose
  value is \<open>undefined\<close> is left out. The text of the result, \<open>json_text\<close>, and the
  reading of a text, \<open>JSON_parse\<close> (\<open>None\<close> when it throws \<open>SyntaxError\<close>), are the
  runtime's.
\<close>

definition undef_to_null :: "jsval \<Rightarrow> jsval" where
  "undef_to_null v = (if v = Undefined then Null else v)"

fun to_json :: "jsval \<Rightarrow> jsval" where
  "to_json (Num NaN) = Null"
| "to_json (Num PosInf) = Null"
| "to_json (Num NegInf) = Null"
| "to_json (Num (Fin q)) = Num (Fin q)"
| "to_json (Arr xs) = Arr (map (\<lambda>x. undef_to_null (to_json x)) xs)"
| "to_json (Obj ps) =
     Obj (map (\<lambda>p. (fst p, to_json (snd p))) (filter (\<lambda>p. snd p \<noteq> Undefined) ps))"
| "to_json Undefined = Undefined"
| "to_json Null = Null"
| "to_json (Bool b) = Bool b"
| "to_json (Str s) = Str s"

definition JSON_stringify :: "runtime \<Rightarrow> jsval \<Rightarrow> string" where
  "JSON_stringify rt v = json_text rt (to_json v)"

text \<open>The entry pushed by \<open>addItem(item)\<close> when \<open>Date.now()\<close> is \<open>now\<close>.\<close>

definition newEntry :: "runtime \<Rightarrow> nat \<Rightarrow> jsobj \<Rightarrow> CartItem" where
  "newEntry rt now item =
     \<lparr> item_id = js_or (getProp item ''id'') (Str (''item-'' @ digits10 now)),
       item_name = getProp item ''name'',
       item_price = parseFloat (strToNum rt) (toStr rt) (getProp item ''price''),
       item_description = js_or (getProp item ''description'') (Str ''''),
       item_type = js_or (getProp item ''type'') (Str ''product'') \<rparr>"

text \<open>The object literal itself, as a value, and the array \<open>this.cart\<close>.\<close>

definition item_obj :: "CartItem \<Rightarrow> jsval" where
  "item_obj it =
     Obj [(''id'', item_id it), (''name'', item_name it), (''price'', Num (item_price it)),
          (''description'', item_description it), (''type'', item_type it)]"

definition cart_val :: "CartItem list \<Rightarrow> jsval" where
  "cart_val items = Arr (map item_obj items)"

subsection \<open>LocalStorage\<close>

text \<open>
  The store maps keys to strings. Any access throws \<open>SecurityError\<close> when the page
  is denied storage, and \<open>setItem\<close> throws \<open>QuotaExceededError\<close> when key and
  value together are longer than the room that is left.
\<close>

datatype error = SecurityError | QuotaExceededError | SyntaxError | HttpError string | NetworkError

record storage =
  entries :: "string \<Rightarrow> string option"
  allowed :: bool
  room :: nat

definition getItem :: "storage \<Rightarrow> string \<Rightarrow> error + string option" where
  "getItem st k = (if allowed st then Inr (entries st k) else Inl SecurityError)"

definition setItem :: "storage \<Rightarrow> string \<Rightarrow> string \<Rightarrow> error + storage" where
  "setItem st k v =
     (if \<not> allowed st then Inl SecurityError
      else if room st < length k + length v then Inl QuotaExceededError
      else Inr (st\<lparr>entries := (entries st)(k \<mapsto> v)\<rparr>))"

definition storageKey :: string where
  "storageKey = ''pz-emporium-cart''"

text \<open>The \<open>try\<close> block of \<open>loadCart\<close>, and \<open>loadCart\<close> with its \<open>catch\<close>.\<close>

definition loadCart_try :: "runtime \<Rightarrow> storage \<Rightarrow> error + jsval" where
  "loadCart_try rt st =
     (case getItem st storageKey of
        Inl e \<Rightarrow> Inl e
      | Inr None \<Rightarrow> Inr (Arr [])
      | Inr (Some cartData) \<Rightarrow>
          (if cartData \<noteq> [] then
             (case JSON_parse rt cartData of None \<Rightarrow> Inl SyntaxError | Some v \<Rightarrow> Inr v)
           else Inr (Arr [])))"

definition loadCart :: "runtime \<Rightarrow> storage \<Rightarrow> error + jsval" where
  "loadCart rt st = (case loadCart_try rt st of Inl e \<Rightarrow> Inr (Arr []) | Inr v \<Rightarrow> Inr v)"

text \<open>\<open>saveCart\<close>: a failed write is caught and leaves the store as it was.\<close>

definition saveCart :: "runtime \<Rightarrow> CartItem list \<Rightarrow> storage \<Rightarrow> storage" where
  "saveCart rt items st =
     (case setItem st storageKey (JSON_stringify rt (cart_val items)) of
        Inl e \<Rightarrow> st
      | Inr st' \<Rightarrow> st')"

subsection \<open>Cart operations\<close>

text \<open>
  The state is the array \<open>this.cart\<close>, the store behind it and the messages shown by
  \<open>alert\<close>. The badge, the modal and the toast notification are display only and are
  left out.
\<close>

record world =
  cart :: "CartItem list"
  localStorage :: storage
  alerts :: "string list"

definition persist :: "runtime \<Rightarrow> world \<Rightarrow> world" where
  "persist rt w = w\<lparr>localStorage := saveCart rt (cart w) (localStorage w)\<rparr>"

definition addItem :: "runtime \<Rightarrow> nat \<Rightarrow> jsobj \<Rightarrow> world \<Rightarrow> world" where
  "addItem rt now item w = persist rt (w\<lparr>cart := cart w @ [newEntry rt now item]\<rparr>)"

text \<open>\<open>splice(index, 1)\<close> at an index inside the array.\<close>

definition splice1 :: "nat \<Rightarrow> 'a list \<Rightarrow> 'a list" where
  "splice1 i xs = take i xs @ drop (Suc i) xs"

definition removeItem :: "runtime \<Rightarrow> int \<Rightarrow> world \<Rightarrow> world" where
  "removeItem rt index w =
     (if index \<ge> 0 \<and> index < int (length (cart w))
      then persist rt (w\<lparr>cart := splice1 (nat index) (cart w)\<rparr>)
      else w)"














section \<open>The data loader\<close>

text \<open>
  What \<open>fetch\<close> gives for a URL: the promise rejects, or there is a response with its
  \<open>ok\<close> flag and the outcome of \<open>response.json()\<close> (\<open>None\<close> when the body is not JSON).
\<close>

datatype fetch_result = Rejected | Response bool "jsval option"

text \<open>
  The loader's fields \<open>cache\<close> and \<open>content\<close>, \<open>window.siteContent\<close> (the code runs in a
  page, where \<open>window\<close> is defined), and the URLs fetched so far, one for each call of
  \<open>fetch\<close>.
\<close>

record loader =
  cache :: "string \<Rightarrow> jsval option"
  content :: jsval
  siteContent :: jsval
  requests :: "string list"

definition useCache :: bool where
  "useCache = False"

definition cached :: "loader \<Rightarrow> string \<Rightarrow> jsval" where
  "cached L filename = (case cache L filename of None \<Rightarrow> Undefined | Some v \<Rightarrow> v)"

definition fetchUrl :: "nat \<Rightarrow> string \<Rightarrow> string" where
  "fetchUrl now filename =
     ''../CrazeeIvan'' @ [CHR 0x27] @ ''s PZ Emporium/shared-data/'' @ filename
       @ (if useCache then [] else ''?t='' @ digits10 now)"

text \<open>The \<open>try\<close> block of \<open>loadJSON\<close> after the request went out.\<close>

definition loadJSON_try :: "fetch_result \<Rightarrow> string \<Rightarrow> error + jsval" where
  "loadJSON_try r filename =
     (case r of
        Rejected \<Rightarrow> Inl NetworkError
      | Response ok body \<Rightarrow>
          (if \<not> ok then Inl (HttpError (''Failed to load '' @ filename))
           else (case body of None \<Rightarrow> Inl SyntaxError | Some data \<Rightarrow> Inr data)))"

definition loadJSON ::
  "(string \<Rightarrow> fetch_result) \<Rightarrow> nat \<Rightarrow> string \<Rightarrow> loader \<Rightarrow> error + (jsval \<times> loader)" where
  "loadJSON net now filename L =
     (if useCache \<and> truthy (cached L filename) then Inr (cached L filename, L)
      else
        (let url = fetchUrl now filename;
             L1 = L\<lparr>requests := requests L @ [url]\<rparr>
         in case loadJSON_try (net url) filename of
              Inl e \<Rightarrow> Inr (if filename = ''content.json'' then Obj [] else Arr [], L1)
            | Inr data \<Rightarrow>
                Inr (data, if useCache then L1\<lparr>cache := (cache L1)(filename \<mapsto> data)\<rparr> else L1)))"

definition loadContent ::
  "(string \<Rightarrow> fetch_result) \<Rightarrow> nat \<Rightarrow> loader \<Rightarrow> error + (jsval \<times> loader)" where
  "loadContent net now L =
     (case (if \<not> truthy (content L)
            then (case loadJSON net now ''content.json'' L of
                    Inl e \<Rightarrow> Inl e
                  | Inr (data, L1) \<Rightarrow> Inr (L1\<lparr>content := data\<rparr>))
            else Inr L) of
        Inl e \<Rightarrow> Inl e
      | Inr L2 \<Rightarrow> Inr (content L2, L2\<lparr>siteContent := content L2\<rparr>))"

definition loadMods ::
  "(string \<Rightarrow> fetch_result) \<Rightarrow> nat \<Rightarrow> loader \<Rightarrow> error + (jsval \<times> loader)" where
  "loadMods net now L = loadJSON net now ''mods.json'' L"

definition loadTools ::
  "(string \<Rightarrow> fetch_result) \<Rightarrow> nat \<Rightarrow> loader \<Rightarrow> error + (jsval \<times> loader)" where
  "loadTools net now L = loadJSON net now ''tools.json'' L"

definition loadTips ::
  "(string \<Rightarrow> fetch_result) \<Rightarrow> nat \<Rightarrow> loader \<Rightarrow> error + (jsval \<times> loader)" where
  "loadTips net now L = loadJSON net now ''tips.json'' L"


section \<open>Sample data\<close>

text \<open>
  Two entries as \<open>addItem\<close> stores them, the second with the price \<open>NaN\<close> that a call
  without a price gives, and the texts \<open>JSON.stringify\<close> writes for the carts that hold
  one of them.
\<close>

definition paid_entry :: CartItem where
  "paid_entry =
     \<lparr> item_id = Str ''a'', item_name = Str ''Tip'', item_price = Fin (499 / 100),
       item_description = Str '''', item_type = Str ''product'' \<rparr>"

definition unpriced_entry :: CartItem where
  "unpriced_entry = paid_entry\<lparr>item_price := NaN\<rparr>"

definition paid_text :: string where
  \<open>paid_text = ''[{"id":"a","name":"Tip","price":4.99,"description":"","type":"product"}]''\<close>

definition null_text :: string where
  \<open>null_text = ''[{"id":"a","name":"Tip","price":null,"description":"","type":"product"}]''\<close>

definition null_priced :: jsval where
  "null_priced =
     Arr [Obj [(''id'', Str ''a''), (''name'', Str ''Tip''), (''price'', Null),
               (''description'', Str ''''), (''type'', Str ''product'')]]"

text \<open>
  A runtime for evaluating examples. Its functions agree with the real ones on the
  values the examples use: the two carts above and the empty cart for
  \<open>JSON.stringify\<close>, their texts and a text that is not JSON for \<open>JSON.parse\<close>, the
  totals \<open>4.99\<close> and \<open>NaN\<close> for \<open>toFixed(2)\<close>, and a string without a numeric prefix for
  \<open>parseFloat\<close>.
\<close>

definition sample_text :: "jsval \<Rightarrow> string" where
  "sample_text v =
     (if v = cart_val [paid_entry] then paid_text
      else if v = null_priced then null_text
      else ''[]'')"

definition sample_parse :: "string \<Rightarrow> jsval option" where
  "sample_parse s =
     (if s = paid_text then Some (cart_val [paid_entry])
      else if s = null_text then Some null_priced
      else if s = ''[]'' then Some (Arr [])
      else None)"

definition sample_runtime :: runtime where
  "sample_runtime =
     \<lparr> strToNum = (\<lambda>s. NaN), toStr = (\<lambda>v. []),
       toFixed2 = (\<lambda>n. if n = Fin (499 / 100) then ''4.99'' else ''NaN''),
       json_text = sample_text, JSON_parse = sample_parse \<rparr>"

definition empty_store :: storage where
  "empty_store = \<lparr> entries = (\<lambda>k. None), allowed = True, room = 5000 \<rparr>"

definition empty_world :: world where
  "empty_world = \<lparr> cart = [], localStorage = empty_store, alerts = [] \<rparr>"

definition new_loader :: loader where
  "new_loader = \<lparr> cache = (\<lambda>k. None), content = Null, siteContent = Undefined, requests = [] \<rparr>"

definition sample_world :: world where
  "sample_world = empty_world\<lparr>cart := [paid_entry, unpriced_entry, paid_entry]\<rparr>"

definition denied_store :: storage where
  "denied_store = empty_store\<lparr>allowed := False\<rparr>"

definition broken_store :: storage where
  "broken_store = empty_store\<lparr>entries := (\<lambda>k. if k = storageKey then Some ''{oops'' else None)\<rparr>"

definition dead_net :: "string \<Rightarrow> fetch_result" where
  "dead_net url = Rejected"

definition missing_net :: "string \<Rightarrow> fetch_result" where
  "missing_net url = Response False (Some (Obj []))"

definition garbled_net :: "string \<Rightarrow> fetch_result" where
  "garbled_net url = Response True None"

definition live_net :: "string \<Rightarrow> fetch_result" where
  "live_net url = Response True (Some (Obj [(''site'', Str ''PZ Emporium'')]))"

section \<open>Auxiliary facts\<close>





lemma cart_persist: "cart (persist rt w) = cart w"
  by (simp add: persist_def)


lemma cart_addItem: "cart (addItem rt now item w) = cart w @ [newEntry rt now item]"
  by (simp add: addItem_def cart_persist)



lemma removeItem_out:
  "\<not> (0 \<le> index \<and> index < int (length (cart w))) \<Longrightarrow> removeItem rt index w = w"
  by (auto simp: removeItem_def)




section \<open>Claims about the cart\<close>




text \<open>
  Claim C5. For every cart state and integer index: when \<open>0 \<le> index < length\<close>,
  \<open>removeItem(index)\<close> takes out exactly the entry at that position, the entries before
  it stay where they are and the entries after it move down by one; when
  \<open>index < 0\<close> or \<open>index \<ge> length\<close>, \<open>removeItem(index)\<close> leaves cart, store and alerts
  as they are.
\<close>

theorem C5_removeItem:
  "(0 \<le> index \<and> index < int (length (cart w)) \<longrightarrow>
      Suc (length (cart (removeItem rt index w))) = length (cart w)
      \<and> (\<forall>j. j < nat index \<longrightarrow> cart (removeItem rt index w) ! j = cart w ! j)
      \<and> (\<forall>j. nat index \<le> j \<and> Suc j < length (cart w)
             \<longrightarrow> cart (removeItem rt index w) ! j = cart w ! Suc j))
   \<and> (index < 0 \<or> int (length (cart w)) \<le> index \<longrightarrow> removeItem rt index w = w)"
proof (intro conjI impI allI)
  assume r: "0 \<le> index \<and> index < int (length (cart w))"
  then have c: "cart (removeItem rt index w) = take (nat index) (cart w) @ drop (Suc (nat index)) (cart w)"
    by (simp add: removeItem_def cart_persist splice1_def)
  from r have n: "nat index < length (cart w)"
    by linarith
  from c n show "Suc (length (cart (removeItem rt index w))) = length (cart w)"
    by simp
  fix j
  { assume "j < nat index"
    with c n show "cart (removeItem rt index w) ! j = cart w ! j"
      by (simp add: nth_append) }
  { assume "nat index \<le> j \<and> Suc j < length (cart w)"
    with c n show "cart (removeItem rt index w) ! j = cart w ! Suc j"
      by (simp add: nth_append min_def) }
next
  assume "index < 0 \<or> int (length (cart w)) \<le> index"
  then have "\<not> (0 \<le> index \<and> index < int (length (cart w)))"
    by linarith
  then show "removeItem rt index w = w"
    by (rule removeItem_out)
qed

theorem C5_removeItem_witness:
  "(0 \<le> (1::int) \<and> 1 < int (length (cart sample_world)))
   \<and> Suc (length (cart (removeItem sample_runtime 1 sample_world))) = 3
   \<and> (0 < nat 1 \<and> cart (removeItem sample_runtime 1 sample_world) ! 0 = paid_entry)
   \<and> (nat 1 \<le> 1 \<and> Suc 1 < length (cart sample_world)
        \<and> cart (removeItem sample_runtime 1 sample_world) ! 1 = paid_entry)
   \<and> ((-1 < (0::int) \<or> int (length (cart sample_world)) \<le> -1)
        \<and> removeItem sample_runtime (-1) sample_world = sample_world)
   \<and> ((3 < (0::int) \<or> int (length (cart sample_world)) \<le> 3)
        \<and> removeItem sample_runtime 3 sample_world = sample_world)"
proof -
  have len: "length (cart sample_world) = 3"
    and nth: "cart sample_world ! 0 = paid_entry" "cart sample_world ! Suc 1 = paid_entry"
    by (simp_all add: sample_world_def empty_world_def)
  from C5_removeItem [of 1 sample_world sample_runtime] len
  have in_range:
    "Suc (length (cart (removeItem sample_runtime 1 sample_world))) = 3
     \<and> (\<forall>j. j < nat 1 \<longrightarrow> cart (removeItem sample_runtime 1 sample_world) ! j = cart sample_world ! j)
     \<and> (\<forall>j. nat 1 \<le> j \<and> Suc j < 3
            \<longrightarrow> cart (removeItem sample_runtime 1 sample_world) ! j = cart sample_world ! Suc j)"
    by simp
  then have "cart (removeItem sample_runtime 1 sample_world) ! 0 = cart sample_world ! 0"
    and "cart (removeItem sample_runtime 1 sample_world) ! 1 = cart sample_world ! Suc 1"
    by simp_all
  with nth have moved: "cart (removeItem sample_runtime 1 sample_world) ! 0 = paid_entry"
    "cart (removeItem sample_runtime 1 sample_world) ! 1 = paid_entry"
    by simp_all
  from C5_removeItem [of "-1" sample_world sample_runtime]
  have below: "removeItem sample_runtime (-1) sample_world = sample_world"
    by simp
  from C5_removeItem [of 3 sample_world sample_runtime] len
  have above: "removeItem sample_runtime 3 sample_world = sample_world"
    by simp
  from in_range moved below above len show ?thesis
    by simp
qed








section \<open>Claims about persistence\<close>

text \<open>
  Claim C7. Whatever the store holds under the cart key, \<open>loadCart()\<close> returns and does
  not throw. It returns the empty list when the store cannot be read, when the key is
  absent, and when the stored string is not valid JSON.
\<close>

theorem C7_loadCart:
  "(\<exists>v. loadCart rt st = Inr v)
   \<and> (\<not> allowed st \<longrightarrow> loadCart rt st = Inr (Arr []))
   \<and> (entries st storageKey = None \<longrightarrow> loadCart rt st = Inr (Arr []))
   \<and> (\<forall>s. entries st storageKey = Some s \<and> JSON_parse rt s = None
        \<longrightarrow> loadCart rt st = Inr (Arr []))"
  by (auto simp: loadCart_def loadCart_try_def getItem_def split: sum.splits option.splits)

theorem C7_loadCart_witness:
  "(\<not> allowed denied_store \<and> loadCart sample_runtime denied_store = Inr (Arr []))
   \<and> (entries empty_store storageKey = None
        \<and> loadCart sample_runtime empty_store = Inr (Arr []))
   \<and> (entries broken_store storageKey = Some ''{oops''
        \<and> JSON_parse sample_runtime ''{oops'' = None
        \<and> loadCart sample_runtime broken_store = Inr (Arr []))"
proof -
  have p: "JSON_parse sample_runtime ''{oops'' = None"
    by (simp add: sample_runtime_def sample_parse_def paid_text_def null_text_def)
  from C7_loadCart [of sample_runtime denied_store] C7_loadCart [of sample_runtime empty_store]
    C7_loadCart [of sample_runtime broken_store] p
  show ?thesis
    by (simp add: denied_store_def empty_store_def broken_store_def)
qed



text \<open>
  An entry added without a price has the price \<open>NaN\<close>. Saved and loaded again, its
  price is \<open>null\<close>: the loaded list is not the saved one.
\<close>

lemma unpriced_entry_added:
  "cart (addItem sample_runtime 42 [(''id'', Str ''a''), (''name'', Str ''Tip'')] empty_world)
     = [unpriced_entry]"
  by (simp add: cart_addItem newEntry_def getProp_def js_or_def unpriced_entry_def
      paid_entry_def empty_world_def)


section \<open>Claims about the data loader\<close>

text \<open>
  Claim C8. For every document name, \<open>loadJSON(name)\<close> returns and does not throw. When
  the fetch is rejected, the response is not \<open>ok\<close>, or the body does not parse as JSON,
  it returns the empty mapping for \<open>content.json\<close> and the empty sequence for every
  other name.
\<close>

theorem C8_loadJSON:
  "(\<exists>r. loadJSON net now filename L = Inr r)
   \<and> (net (fetchUrl now filename) = Rejected
        \<or> (\<exists>body. net (fetchUrl now filename) = Response False body)
        \<or> net (fetchUrl now filename) = Response True None
      \<longrightarrow> (\<exists>L'. loadJSON net now filename L
                  = Inr (if filename = ''content.json'' then Obj [] else Arr [], L')))"
  by (auto simp: loadJSON_def loadJSON_try_def useCache_def Let_def
      split: fetch_result.splits option.splits)

theorem C8_loadJSON_witness:
  "(dead_net (fetchUrl 42 ''mods.json'') = Rejected
      \<and> (\<exists>L'. loadJSON dead_net 42 ''mods.json'' new_loader = Inr (Arr [], L')))
   \<and> ((\<exists>body. missing_net (fetchUrl 42 ''content.json'') = Response False body)
      \<and> (\<exists>L'. loadJSON missing_net 42 ''content.json'' new_loader = Inr (Obj [], L')))
   \<and> (garbled_net (fetchUrl 42 ''tips.json'') = Response True None
      \<and> (\<exists>L'. loadJSON garbled_net 42 ''tips.json'' new_loader = Inr (Arr [], L')))"
proof -
  have a: "dead_net (fetchUrl 42 ''mods.json'') = Rejected"
    by (simp add: dead_net_def)
  have b: "\<exists>body. missing_net (fetchUrl 42 ''content.json'') = Response False body"
    by (simp add: missing_net_def)
  have c: "garbled_net (fetchUrl 42 ''tips.json'') = Response True None"
    by (simp add: garbled_net_def)
  from C8_loadJSON [of dead_net 42 "''mods.json''" new_loader] a
  have 1: "\<exists>L'. loadJSON dead_net 42 ''mods.json'' new_loader = Inr (Arr [], L')"
    by simp
  from C8_loadJSON [of missing_net 42 "''content.json''" new_loader] b
  have 2: "\<exists>L'. loadJSON missing_net 42 ''content.json'' new_loader = Inr (Obj [], L')"
    by simp
  from C8_loadJSON [of garbled_net 42 "''tips.json''" new_loader] c
  have 3: "\<exists>L'. loadJSON garbled_net 42 ''tips.json'' new_loader = Inr (Arr [], L')"
    by simp
  from a b c 1 2 3 show ?thesis
    by blast
qed

text \<open>
  Claim C9. Once a call of \<open>loadContent()\<close> has returned a mapping, every later call
  returns that same value from the \<open>content\<close> field and sends no request, in whatever
  state of the loader still holds that field. \<open>loadMods()\<close>, \<open>loadTools()\<close> and \<open>loadTips()\<close>
  send one request on every call, whatever the cache holds, and leave the \<open>content\<close>
  field alone.
\<close>

theorem C9_memo:
  assumes "loadContent net1 t1 L0 = Inr (c, L1)"
    and "truthy c"
    and "content L = content L1"
  shows "loadContent net2 t2 L1 = Inr (c, L1)
         \<and> (\<exists>L'. loadContent net2 t2 L = Inr (c, L')
                \<and> requests L' = requests L \<and> content L' = c)
         \<and> (\<exists>d L'. loadMods net2 t2 L = Inr (d, L')
                \<and> requests L' = requests L @ [fetchUrl t2 ''mods.json'']
                \<and> content L' = content L)
         \<and> (\<exists>d L'. loadTools net2 t2 L = Inr (d, L')
                \<and> requests L' = requests L @ [fetchUrl t2 ''tools.json'']
                \<and> content L' = content L)
         \<and> (\<exists>d L'. loadTips net2 t2 L = Inr (d, L')
                \<and> requests L' = requests L @ [fetchUrl t2 ''tips.json'']
                \<and> content L' = content L)"
proof -
  from assms(1) have c: "content L1 = c" and s: "siteContent L1 = c"
    by (auto simp: loadContent_def split: if_splits sum.splits prod.splits)
  from c s assms(2) have "loadContent net2 t2 L1 = Inr (c, L1)"
    by (simp add: loadContent_def)
  moreover from c assms(2,3)
  have "\<exists>L'. loadContent net2 t2 L = Inr (c, L') \<and> requests L' = requests L \<and> content L' = c"
    by (simp add: loadContent_def)
  moreover have "\<And>filename. \<exists>d L'. loadJSON net2 t2 filename L = Inr (d, L')
      \<and> requests L' = requests L @ [fetchUrl t2 filename] \<and> content L' = content L"
    by (auto simp: loadJSON_def useCache_def Let_def split: sum.splits)
  ultimately show ?thesis
    by (simp add: loadMods_def loadTools_def loadTips_def)
qed

theorem C9_memo_witness:
  "loadContent live_net 42 new_loader
      = Inr (Obj [(''site'', Str ''PZ Emporium'')],
             new_loader\<lparr>content := Obj [(''site'', Str ''PZ Emporium'')],
                        siteContent := Obj [(''site'', Str ''PZ Emporium'')],
                        requests := [fetchUrl 42 ''content.json'']\<rparr>)
   \<and> truthy (Obj [(''site'', Str ''PZ Emporium'')])
   \<and> loadContent dead_net 43
        (new_loader\<lparr>content := Obj [(''site'', Str ''PZ Emporium'')],
                    siteContent := Obj [(''site'', Str ''PZ Emporium'')],
                    requests := [fetchUrl 42 ''content.json'']\<rparr>)
      = Inr (Obj [(''site'', Str ''PZ Emporium'')],
             new_loader\<lparr>content := Obj [(''site'', Str ''PZ Emporium'')],
                        siteContent := Obj [(''site'', Str ''PZ Emporium'')],
                        requests := [fetchUrl 42 ''content.json'']\<rparr>)"
proof -
  have first: "loadContent live_net 42 new_loader
      = Inr (Obj [(''site'', Str ''PZ Emporium'')],
             new_loader\<lparr>content := Obj [(''site'', Str ''PZ Emporium'')],
                        siteContent := Obj [(''site'', Str ''PZ Emporium'')],
                        requests := [fetchUrl 42 ''content.json'']\<rparr>)"
    by (simp add: loadContent_def loadJSON_def loadJSON_try_def useCache_def Let_def
        live_net_def new_loader_def)
  have t: "truthy (Obj [(''site'', Str ''PZ Emporium'')])"
    by simp
  from C9_memo [OF first t refl, of dead_net 43] first t show ?thesis
    by blast
qed

end
